theory Spec2Isabelle
  imports Main "HOL-Library.Word"
begin

unbundle bit_operations_syntax

section \<open>The TCP header codec of netstack (src/src/tcp.c)\<close>

text \<open>
  The C types of the target (BareMetal OS, x86-64, LP64): \<open>unsigned char\<close> is 8 bits,
  \<open>unsigned int\<close> 32 bits and \<open>unsigned long int\<close> 64 bits. A return code is a C
  \<open>int\<close>; no arithmetic is done on return codes, so they are modelled as \<open>int\<close>.
\<close>

type_synonym uchar = "8 word"
type_synonym uint = "32 word"
type_synonym ulong = "64 word"

subsection \<open>Declarations of the headers\<close>

text \<open>
  Modelled from the spec: the headers netstack/error.h and netstack/tcp.h, which declare
  the error codes and the nine control-bit constants, are missing. The spec names the
  three error codes and the nine flags and does not give their values. The values are
  therefore parameters of the model: every function below takes them as a record of
  constants, and nothing is assumed about them unless a theorem says so.
\<close>

record netstack_consts =
  NETSTACK_ERROR_NONE :: int
  NETSTACK_ERROR_BAD_FIELD :: int
  NETSTACK_ERROR_MISSING_DATA :: int
  NETSTACK_TCP_NS :: uint
  NETSTACK_TCP_CWR :: uint
  NETSTACK_TCP_ECE :: uint
  NETSTACK_TCP_URG :: uint
  NETSTACK_TCP_ACK :: uint
  NETSTACK_TCP_PSH :: uint
  NETSTACK_TCP_RST :: uint
  NETSTACK_TCP_SYN :: uint
  NETSTACK_TCP_FIN :: uint

text \<open>
  Modelled from the spec: \<open>struct netstack_tcp\<close> is declared in the missing netstack/tcp.h.
  Its fields are the nine that tcp.c assigns, in the order of \<open>netstack_tcp_init\<close>; the
  spec's data model has them stored wider than their place in the header. The port
  fields are \<open>unsigned int\<close> (their addresses are passed to \<open>parse_port\<close> as
  \<open>unsigned int *\<close>, and unpack assembles every 16-bit field from \<open>unsigned int\<close>
  operands); the sequence and acknowledgment numbers are assembled from
  \<open>unsigned long int\<close> operands.
\<close>

record netstack_tcp =
  source :: uint
  destination :: uint
  sequence :: ulong
  acknowledgment :: ulong
  data_offset :: uint
  control_bits :: uint
  window_size :: uint
  checksum :: uint
  urgent_pointer :: uint

text \<open>
  Modelled from the spec: \<open>struct netstack_buffer\<close> is declared in the missing
  netstack/buffer.h. The spec's contract: an owned, resizable byte region that exposes a
  pointer and a current size. The record holds the bytes \<open>data\<close> points to; the \<open>size\<close>
  field is the number of these bytes, the length of the list.
\<close>

record netstack_buffer =
  data :: "uchar list"

definition buffer_size :: "netstack_buffer \<Rightarrow> nat" where
  "buffer_size buffer = length (data buffer)"

text \<open>
  Modelled from the spec: \<open>netstack_buffer_shift\<close> is declared in netstack/buffer.h and
  its definition is missing. The spec's contract: it grows the region by \<open>n\<close> bytes
  inserted at the front, keeping the existing bytes after them in order, and reports an
  error distinguishable from success when the region cannot grow. Two things the contract
  leaves open are inputs of the model: the outcome \<open>alloc\<close> of the growth request (\<open>0\<close>
  when it succeeds, the buffer's error code otherwise), and the content of the inserted
  bytes, of which the spec says nothing: byte \<open>i\<close> of the inserted region holds \<open>fill i\<close>.
\<close>

definition netstack_buffer_shift ::
  "int \<Rightarrow> (nat \<Rightarrow> uchar) \<Rightarrow> netstack_buffer \<Rightarrow> nat \<Rightarrow> int \<times> netstack_buffer" where
  "netstack_buffer_shift alloc fill buffer n =
     (if alloc \<noteq> 0 then (alloc, buffer)
      else (0, buffer\<lparr>data := map fill [0..<n] @ data buffer\<rparr>))"

text \<open>
  Modelled from the spec: \<open>struct netstack_mutator\<close> is declared in the missing
  netstack/mutator.h; its shape is that of \<open>struct libnet_mutator\<close> in
  include/libnet/mutator.h. It holds opaque data and a function pointer, \<open>None\<close> for
  \<open>NULL\<close>. The callback receives the data and a pointer to the header; it returns a code
  and leaves the header as it has edited it.
\<close>

record 'd netstack_mutator =
  mutator_data :: 'd
  mutate_tcp :: "('d \<Rightarrow> netstack_tcp \<Rightarrow> int \<times> netstack_tcp) option"

subsection \<open>parse_port\<close>

text \<open>
  The loop of \<open>parse_port\<close> over the characters still to be read, \<open>port\<close> being the
  accumulator. \<open>None\<close> is the early \<open>return NETSTACK_ERROR_BAD_FIELD\<close>. Whether \<open>char\<close>
  is signed or not, a character outside \<open>'0'..'9'\<close> fails one of the two comparisons.
\<close>

fun parse_port_loop :: "string \<Rightarrow> ulong \<Rightarrow> ulong option" where
  "parse_port_loop [] port = Some port"
| "parse_port_loop (c # cs) port =
     (if (of_char c :: int) \<ge> of_char CHR ''0'' \<and> (of_char c :: int) \<le> of_char CHR ''9''
      then parse_port_loop cs (port * 10 + word_of_int (of_char c - of_char CHR ''0''))
      else None)"

text \<open>
  \<open>parse_port port_ptr str str_size\<close>: the pair \<open>(str, str_size)\<close> is the list \<open>str\<close>;
  \<open>port_ptr\<close> is the value stored at the destination before the call, and the result
  holds the return code and the value stored there afterwards.
\<close>

definition parse_port :: "netstack_consts \<Rightarrow> uint \<Rightarrow> string \<Rightarrow> int \<times> uint" where
  "parse_port K port_ptr str =
     (let str_size = (if length str > 5 then 5 else length str) in
      case parse_port_loop (take str_size str) 0 of
        None \<Rightarrow> (NETSTACK_ERROR_BAD_FIELD K, port_ptr)
      | Some port \<Rightarrow>
          if port > 65535 then (NETSTACK_ERROR_BAD_FIELD K, port_ptr)
          else (NETSTACK_ERROR_NONE K, ucast port))"

subsection \<open>Initialiser, setters and mutate\<close>

definition netstack_tcp_init :: "netstack_tcp \<Rightarrow> netstack_tcp" where
  "netstack_tcp_init tcp =
     tcp\<lparr>source := 0, destination := 0, sequence := 0, acknowledgment := 0,
         data_offset := 5, control_bits := 0, window_size := 1, checksum := 0,
         urgent_pointer := 0\<rparr>"

definition netstack_tcp_set_source :: "netstack_consts \<Rightarrow> netstack_tcp \<Rightarrow> string \<Rightarrow> int \<times> netstack_tcp" where
  "netstack_tcp_set_source K tcp str =
     (case parse_port K (source tcp) str of (err, port) \<Rightarrow> (err, tcp\<lparr>source := port\<rparr>))"

definition netstack_tcp_set_destination :: "netstack_consts \<Rightarrow> netstack_tcp \<Rightarrow> string \<Rightarrow> int \<times> netstack_tcp" where
  "netstack_tcp_set_destination K tcp str =
     (case parse_port K (destination tcp) str of (err, port) \<Rightarrow> (err, tcp\<lparr>destination := port\<rparr>))"

definition netstack_tcp_mutate :: "netstack_consts \<Rightarrow> netstack_tcp \<Rightarrow> 'd netstack_mutator \<Rightarrow> int \<times> netstack_tcp" where
  "netstack_tcp_mutate K tcp mutator =
     (case mutate_tcp mutator of
        None \<Rightarrow> (NETSTACK_ERROR_NONE K, tcp)
      | Some f \<Rightarrow> f (mutator_data mutator) tcp)"

subsection \<open>netstack_tcp_pack\<close>

text \<open>
  The writes of \<open>netstack_tcp_pack\<close> into \<open>header\<close>, the region \<open>buffer->data\<close> points
  to after the shift, one update per assignment and in the order of the source. The
  value assigned to an \<open>unsigned char\<close> is cut to its low 8 bits (\<open>ucast\<close>).
\<close>

definition pack_header :: "netstack_consts \<Rightarrow> netstack_tcp \<Rightarrow> uchar list \<Rightarrow> uchar list" where
  "pack_header K tcp header0 =
     (let header = header0;
          header = header[0 := ucast (drop_bit 8 (0xff00 AND source tcp))];
          header = header[1 := ucast (drop_bit 0 (0x00ff AND source tcp))];
          header = header[2 := ucast (drop_bit 8 (0xff00 AND destination tcp))];
          header = header[3 := ucast (drop_bit 0 (0x00ff AND destination tcp))];
          header = header[4 := ucast (drop_bit 24 (0xff000000 AND sequence tcp))];
          header = header[5 := ucast (drop_bit 16 (0x00ff0000 AND sequence tcp))];
          header = header[6 := ucast (drop_bit 8 (0x0000ff00 AND sequence tcp))];
          header = header[7 := ucast (drop_bit 0 (0x000000ff AND sequence tcp))];
          header = header[8 := ucast (drop_bit 24 (0xff000000 AND acknowledgment tcp))];
          header = header[9 := ucast (drop_bit 16 (0x00ff0000 AND acknowledgment tcp))];
          header = header[10 := ucast (drop_bit 8 (0x0000ff00 AND acknowledgment tcp))];
          header = header[11 := ucast (drop_bit 0 (0x000000ff AND acknowledgment tcp))];
          header = header[12 := 0];
          header = header[13 := 0];
          header = header[12 := push_bit 4 5];
          header = (if control_bits tcp AND NETSTACK_TCP_NS K \<noteq> 0
                    then header[12 := header ! 12 OR 0x01] else header);
          header = (if control_bits tcp AND NETSTACK_TCP_CWR K \<noteq> 0
                    then header[13 := header ! 13 OR 0x80] else header);
          header = (if control_bits tcp AND NETSTACK_TCP_ECE K \<noteq> 0
                    then header[13 := header ! 13 OR 0x40] else header);
          header = (if control_bits tcp AND NETSTACK_TCP_URG K \<noteq> 0
                    then header[13 := header ! 13 OR 0x20] else header);
          header = (if control_bits tcp AND NETSTACK_TCP_ACK K \<noteq> 0
                    then header[13 := header ! 13 OR 0x10] else header);
          header = (if control_bits tcp AND NETSTACK_TCP_PSH K \<noteq> 0
                    then header[13 := header ! 13 OR 0x08] else header);
          header = (if control_bits tcp AND NETSTACK_TCP_RST K \<noteq> 0
                    then header[13 := header ! 13 OR 0x04] else header);
          header = (if control_bits tcp AND NETSTACK_TCP_SYN K \<noteq> 0
                    then header[13 := header ! 13 OR 0x02] else header);
          header = (if control_bits tcp AND NETSTACK_TCP_FIN K \<noteq> 0
                    then header[13 := header ! 13 OR 0x01] else header);
          header = header[14 := ucast (drop_bit 8 (window_size tcp AND 0xff00))];
          header = header[15 := ucast (drop_bit 0 (window_size tcp AND 0x00ff))];
          header = header[16 := 0];
          header = header[17 := 0];
          header = header[18 := ucast (drop_bit 8 (urgent_pointer tcp AND 0xff00))];
          header = header[19 := ucast (drop_bit 0 (urgent_pointer tcp AND 0x00ff))]
      in header)"

text \<open>
  \<open>netstack_tcp_pack tcp buffer\<close>, with the outcome \<open>alloc\<close> of the buffer's growth and
  the content \<open>fill\<close> of the bytes the shift inserts.
  The result holds the return code, the header as the call leaves it (the source never
  assigns through \<open>tcp\<close>) and the buffer as the call leaves it.
\<close>

definition netstack_tcp_pack ::
  "netstack_consts \<Rightarrow> int \<Rightarrow> (nat \<Rightarrow> uchar) \<Rightarrow> netstack_tcp \<Rightarrow> netstack_buffer \<Rightarrow>
     int \<times> netstack_tcp \<times> netstack_buffer" where
  "netstack_tcp_pack K alloc fill tcp buffer0 =
     (case netstack_buffer_shift alloc fill buffer0 20 of (err, buffer) \<Rightarrow>
        if err \<noteq> 0 then (err, tcp, buffer)
        else (NETSTACK_ERROR_NONE K, tcp, buffer\<lparr>data := pack_header K tcp (data buffer)\<rparr>))"

subsection \<open>netstack_tcp_unpack\<close>

text \<open>
  \<open>netstack_tcp_unpack tcp buffer\<close>: \<open>tcp\<close> is the header before the call, the result
  holds the return code and the header afterwards. The buffer is only read.
\<close>

definition netstack_tcp_unpack :: "netstack_consts \<Rightarrow> netstack_tcp \<Rightarrow> netstack_buffer \<Rightarrow> int \<times> netstack_tcp" where
  "netstack_tcp_unpack K tcp0 buffer =
     (if buffer_size buffer < 20 then (NETSTACK_ERROR_MISSING_DATA K, tcp0)
      else
       (let header = data buffer;
            tcp = tcp0;
            tcp = tcp\<lparr>source := 0\<rparr>;
            tcp = tcp\<lparr>source := source tcp OR push_bit 8 (ucast (header ! 0))\<rparr>;
            tcp = tcp\<lparr>source := source tcp OR push_bit 0 (ucast (header ! 1))\<rparr>;
            tcp = tcp\<lparr>destination := 0\<rparr>;
            tcp = tcp\<lparr>destination := destination tcp OR push_bit 8 (ucast (header ! 2))\<rparr>;
            tcp = tcp\<lparr>destination := destination tcp OR push_bit 0 (ucast (header ! 3))\<rparr>;
            tcp = tcp\<lparr>sequence := 0\<rparr>;
            tcp = tcp\<lparr>sequence := sequence tcp OR push_bit 24 (ucast (header ! 4))\<rparr>;
            tcp = tcp\<lparr>sequence := sequence tcp OR push_bit 16 (ucast (header ! 5))\<rparr>;
            tcp = tcp\<lparr>sequence := sequence tcp OR push_bit 8 (ucast (header ! 6))\<rparr>;
            tcp = tcp\<lparr>sequence := sequence tcp OR push_bit 0 (ucast (header ! 7))\<rparr>;
            tcp = tcp\<lparr>acknowledgment := 0\<rparr>;
            tcp = tcp\<lparr>acknowledgment := acknowledgment tcp OR push_bit 24 (ucast (header ! 8))\<rparr>;
            tcp = tcp\<lparr>acknowledgment := acknowledgment tcp OR push_bit 16 (ucast (header ! 9))\<rparr>;
            tcp = tcp\<lparr>acknowledgment := acknowledgment tcp OR push_bit 8 (ucast (header ! 10))\<rparr>;
            tcp = tcp\<lparr>acknowledgment := acknowledgment tcp OR push_bit 0 (ucast (header ! 11))\<rparr>;
            tcp = tcp\<lparr>data_offset := ucast (drop_bit 4 (header ! 12))\<rparr>;
            tcp = tcp\<lparr>control_bits := 0\<rparr>;
            tcp = (if header ! 12 AND 0x01 \<noteq> 0
                   then tcp\<lparr>control_bits := control_bits tcp OR NETSTACK_TCP_NS K\<rparr> else tcp);
            tcp = (if header ! 13 AND 0x80 \<noteq> 0
                   then tcp\<lparr>control_bits := control_bits tcp OR NETSTACK_TCP_CWR K\<rparr> else tcp);
            tcp = (if header ! 13 AND 0x40 \<noteq> 0
                   then tcp\<lparr>control_bits := control_bits tcp OR NETSTACK_TCP_ECE K\<rparr> else tcp);
            tcp = (if header ! 13 AND 0x20 \<noteq> 0
                   then tcp\<lparr>control_bits := control_bits tcp OR NETSTACK_TCP_URG K\<rparr> else tcp);
            tcp = (if header ! 13 AND 0x10 \<noteq> 0
                   then tcp\<lparr>control_bits := control_bits tcp OR NETSTACK_TCP_ACK K\<rparr> else tcp);
            tcp = (if header ! 13 AND 0x08 \<noteq> 0
                   then tcp\<lparr>control_bits := control_bits tcp OR NETSTACK_TCP_PSH K\<rparr> else tcp);
            tcp = (if header ! 13 AND 0x04 \<noteq> 0
                   then tcp\<lparr>control_bits := control_bits tcp OR NETSTACK_TCP_RST K\<rparr> else tcp);
            tcp = (if header ! 13 AND 0x02 \<noteq> 0
                   then tcp\<lparr>control_bits := control_bits tcp OR NETSTACK_TCP_SYN K\<rparr> else tcp);
            tcp = (if header ! 13 AND 0x01 \<noteq> 0
                   then tcp\<lparr>control_bits := control_bits tcp OR NETSTACK_TCP_FIN K\<rparr> else tcp);
            tcp = tcp\<lparr>window_size := 0\<rparr>;
            tcp = tcp\<lparr>window_size := window_size tcp OR push_bit 8 (ucast (header ! 14))\<rparr>;
            tcp = tcp\<lparr>window_size := window_size tcp OR push_bit 0 (ucast (header ! 15))\<rparr>;
            tcp = tcp\<lparr>checksum := 0\<rparr>;
            tcp = tcp\<lparr>checksum := checksum tcp OR push_bit 8 (ucast (header ! 16))\<rparr>;
            tcp = tcp\<lparr>checksum := checksum tcp OR push_bit 0 (ucast (header ! 17))\<rparr>;
            tcp = tcp\<lparr>urgent_pointer := 0\<rparr>;
            tcp = tcp\<lparr>urgent_pointer := urgent_pointer tcp OR push_bit 8 (ucast (header ! 18))\<rparr>;
            tcp = tcp\<lparr>urgent_pointer := urgent_pointer tcp OR push_bit 0 (ucast (header ! 19))\<rparr>
        in (NETSTACK_ERROR_NONE K, tcp)))"

subsection \<open>Notions the properties are stated with\<close>

text \<open>The ASCII decimal digits, and the decimal value of a string of digits.\<close>

definition digit :: "char \<Rightarrow> bool" where
  "digit c = (c \<in> set ''0123456789'')"

definition dec_value :: "string \<Rightarrow> nat" where
  "dec_value s = foldl (\<lambda>v c. 10 * v + (of_char c - 48)) 0 s"

text \<open>
  The nine control-bit constants, the bits that belong to one of them, and a combination
  of flags: the bitwise or of some of the constants.
\<close>

definition control_bit_values :: "netstack_consts \<Rightarrow> uint list" where
  "control_bit_values K =
     [NETSTACK_TCP_NS K, NETSTACK_TCP_CWR K, NETSTACK_TCP_ECE K, NETSTACK_TCP_URG K,
      NETSTACK_TCP_ACK K, NETSTACK_TCP_PSH K, NETSTACK_TCP_RST K, NETSTACK_TCP_SYN K,
      NETSTACK_TCP_FIN K]"

definition flags_mask :: "netstack_consts \<Rightarrow> uint" where
  "flags_mask K =
     NETSTACK_TCP_NS K OR NETSTACK_TCP_CWR K OR NETSTACK_TCP_ECE K OR NETSTACK_TCP_URG K OR
     NETSTACK_TCP_ACK K OR NETSTACK_TCP_PSH K OR NETSTACK_TCP_RST K OR NETSTACK_TCP_SYN K OR
     NETSTACK_TCP_FIN K"

definition combine :: "uint list \<Rightarrow> uint" where
  "combine fs = foldr (OR) fs 0"

text \<open>
  What the spec's "bitmask over 9 flags" asks of the constants, whose values are not
  given: each is a single bit of an \<open>unsigned int\<close>, and no two are the same bit.
\<close>

definition single_bit :: "uint \<Rightarrow> bool" where
  "single_bit w = (\<exists>n\<in>{0..<32}. w = push_bit n 1)"

definition control_bits_wellformed :: "netstack_consts \<Rightarrow> bool" where
  "control_bits_wellformed K =
     (list_all single_bit (control_bit_values K) \<and> distinct (control_bit_values K))"

text \<open>
  The field-width invariants of a header: every field fits its place in the 20-byte
  header, and the control bits hold only bits of the nine flags.
\<close>

definition field_widths :: "netstack_consts \<Rightarrow> netstack_tcp \<Rightarrow> bool" where
  "field_widths K tcp =
     (source tcp \<le> 65535 \<and> destination tcp \<le> 65535 \<and> window_size tcp \<le> 65535 \<and>
      checksum tcp \<le> 65535 \<and> urgent_pointer tcp \<le> 65535 \<and>
      sequence tcp \<le> 4294967295 \<and> acknowledgment tcp \<le> 4294967295 \<and>
      data_offset tcp \<le> 15 \<and>
      control_bits tcp AND flags_mask K = control_bits tcp)"

text \<open>
  One admissible choice of the constants of the headers and one header (window size
  1234, control bits SYN and ACK), on which the model is evaluated at concrete inputs.
\<close>

definition demo_consts :: netstack_consts where
  "demo_consts =
     \<lparr>NETSTACK_ERROR_NONE = 0, NETSTACK_ERROR_BAD_FIELD = 1, NETSTACK_ERROR_MISSING_DATA = 2,
      NETSTACK_TCP_NS = 0x100, NETSTACK_TCP_CWR = 0x80, NETSTACK_TCP_ECE = 0x40,
      NETSTACK_TCP_URG = 0x20, NETSTACK_TCP_ACK = 0x10, NETSTACK_TCP_PSH = 0x08,
      NETSTACK_TCP_RST = 0x04, NETSTACK_TCP_SYN = 0x02, NETSTACK_TCP_FIN = 0x01\<rparr>"

definition demo_tcp :: netstack_tcp where
  "demo_tcp =
     \<lparr>source = 80, destination = 443, sequence = 1, acknowledgment = 0, data_offset = 5,
      control_bits = 0x12, window_size = 1234, checksum = 0, urgent_pointer = 0\<rparr>"

subsection \<open>Closed forms used in the proofs\<close>

text \<open>
  The byte of a word that starts at bit \<open>k\<close>; the big-endian value of two and of four
  bytes; the two flag bytes \<open>netstack_tcp_pack\<close> writes; the control bits
  \<open>netstack_tcp_unpack\<close> reads from two flag bytes; the statement \<open>header[i] |= m\<close>;
  and the control bits that pack followed by unpack keeps: the constants that share a
  bit with the header's control bits.
\<close>

definition byte_at :: "nat \<Rightarrow> 'a::len word \<Rightarrow> uchar" where
  "byte_at k w = ucast (drop_bit k w)"

definition be16 :: "uchar \<Rightarrow> uchar \<Rightarrow> uint" where
  "be16 hi lo = push_bit 8 (ucast hi) OR ucast lo"

definition be32 :: "uchar \<Rightarrow> uchar \<Rightarrow> uchar \<Rightarrow> uchar \<Rightarrow> ulong" where
  "be32 b3 b2 b1 b0 =
     ((push_bit 24 (ucast b3) OR push_bit 16 (ucast b2)) OR push_bit 8 (ucast b1)) OR ucast b0"

definition pack_byte12 :: "netstack_consts \<Rightarrow> uint \<Rightarrow> uchar" where
  "pack_byte12 K cb = 0x50 OR (if cb AND NETSTACK_TCP_NS K \<noteq> 0 then 0x01 else 0)"

definition pack_byte13 :: "netstack_consts \<Rightarrow> uint \<Rightarrow> uchar" where
  "pack_byte13 K cb =
     (((((((if cb AND NETSTACK_TCP_CWR K \<noteq> 0 then 0x80 else 0) OR
            (if cb AND NETSTACK_TCP_ECE K \<noteq> 0 then 0x40 else 0)) OR
            (if cb AND NETSTACK_TCP_URG K \<noteq> 0 then 0x20 else 0)) OR
            (if cb AND NETSTACK_TCP_ACK K \<noteq> 0 then 0x10 else 0)) OR
            (if cb AND NETSTACK_TCP_PSH K \<noteq> 0 then 0x08 else 0)) OR
            (if cb AND NETSTACK_TCP_RST K \<noteq> 0 then 0x04 else 0)) OR
            (if cb AND NETSTACK_TCP_SYN K \<noteq> 0 then 0x02 else 0)) OR
            (if cb AND NETSTACK_TCP_FIN K \<noteq> 0 then 0x01 else 0)"

definition unpack_flags :: "netstack_consts \<Rightarrow> uchar \<Rightarrow> uchar \<Rightarrow> uint" where
  "unpack_flags K b12 b13 =
     ((((((((if b12 AND 0x01 \<noteq> 0 then NETSTACK_TCP_NS K else 0) OR
             (if b13 AND 0x80 \<noteq> 0 then NETSTACK_TCP_CWR K else 0)) OR
             (if b13 AND 0x40 \<noteq> 0 then NETSTACK_TCP_ECE K else 0)) OR
             (if b13 AND 0x20 \<noteq> 0 then NETSTACK_TCP_URG K else 0)) OR
             (if b13 AND 0x10 \<noteq> 0 then NETSTACK_TCP_ACK K else 0)) OR
             (if b13 AND 0x08 \<noteq> 0 then NETSTACK_TCP_PSH K else 0)) OR
             (if b13 AND 0x04 \<noteq> 0 then NETSTACK_TCP_RST K else 0)) OR
             (if b13 AND 0x02 \<noteq> 0 then NETSTACK_TCP_SYN K else 0)) OR
             (if b13 AND 0x01 \<noteq> 0 then NETSTACK_TCP_FIN K else 0)"

definition or_byte :: "nat \<Rightarrow> uchar \<Rightarrow> uchar list \<Rightarrow> uchar list" where
  "or_byte i m h = h[i := h ! i OR m]"

definition flags_kept :: "netstack_consts \<Rightarrow> uint \<Rightarrow> uint" where
  "flags_kept K cb =
     ((((((((if cb AND NETSTACK_TCP_NS K \<noteq> 0 then NETSTACK_TCP_NS K else 0) OR
             (if cb AND NETSTACK_TCP_CWR K \<noteq> 0 then NETSTACK_TCP_CWR K else 0)) OR
             (if cb AND NETSTACK_TCP_ECE K \<noteq> 0 then NETSTACK_TCP_ECE K else 0)) OR
             (if cb AND NETSTACK_TCP_URG K \<noteq> 0 then NETSTACK_TCP_URG K else 0)) OR
             (if cb AND NETSTACK_TCP_ACK K \<noteq> 0 then NETSTACK_TCP_ACK K else 0)) OR
             (if cb AND NETSTACK_TCP_PSH K \<noteq> 0 then NETSTACK_TCP_PSH K else 0)) OR
             (if cb AND NETSTACK_TCP_RST K \<noteq> 0 then NETSTACK_TCP_RST K else 0)) OR
             (if cb AND NETSTACK_TCP_SYN K \<noteq> 0 then NETSTACK_TCP_SYN K else 0)) OR
             (if cb AND NETSTACK_TCP_FIN K \<noteq> 0 then NETSTACK_TCP_FIN K else 0)"

section \<open>The field parser\<close>

lemma digit_code: "digit c \<longleftrightarrow> 48 \<le> (of_char c :: nat) \<and> (of_char c :: nat) \<le> 57"
proof
  assume "digit c"
  then show "48 \<le> (of_char c :: nat) \<and> (of_char c :: nat) \<le> 57"
    by (auto simp: digit_def)
next
  assume "48 \<le> (of_char c :: nat) \<and> (of_char c :: nat) \<le> 57"
  then have "(of_char c :: nat) \<in> {48, 49, 50, 51, 52, 53, 54, 55, 56, 57}"
    by simp arith
  then have "(of_char c :: nat) \<in> of_char ` set ''0123456789''"
    by simp
  then show "digit c"
    unfolding digit_def by (auto simp del: of_char_Char)
qed

lemma digit_iff:
  "digit c \<longleftrightarrow> (of_char c :: int) \<ge> of_char CHR ''0'' \<and> (of_char c :: int) \<le> of_char CHR ''9''"
proof -
  have "(of_char c :: int) = int (of_char c)"
    by (simp add: of_nat_of_char)
  then show ?thesis
    by (simp add: digit_code)
qed

lemma loop_step:
  assumes "digit c"
  shows "(word_of_nat v :: ulong) * 10 + word_of_int (of_char c - of_char CHR ''0'')
           = word_of_nat (10 * v + (of_char c - 48))"
proof -
  from assms have r: "(48::nat) \<le> of_char c"
    by (simp add: digit_code)
  have "(of_char c :: int) = int (of_char c)"
    by (simp add: of_nat_of_char)
  then have "(of_char c :: int) - of_char CHR ''0'' = int (of_char c - 48)"
    using r by simp
  then have "(word_of_int (of_char c - of_char CHR ''0'') :: ulong) = word_of_nat (of_char c - 48)"
    by (simp only: of_int_of_nat_eq)
  then show ?thesis
    by (simp only: of_nat_add of_nat_mult mult.commute of_nat_numeral)
qed

text \<open>The loop computes in 64-bit words what the decimal value is in the naturals.\<close>

lemma parse_port_loop_of_nat:
  "parse_port_loop s (word_of_nat v) =
     (if \<forall>c\<in>set s. digit c
      then Some (word_of_nat (foldl (\<lambda>v c. 10 * v + (of_char c - 48)) v s))
      else None)"
proof (induction s arbitrary: v)
  case Nil
  show ?case by simp
next
  case (Cons c cs)
  show ?case
  proof (cases "digit c")
    case False
    then show ?thesis
      using digit_iff[of c] by auto
  next
    case True
    have "parse_port_loop (c # cs) (word_of_nat v) =
            parse_port_loop cs (word_of_nat v * 10 + word_of_int (of_char c - of_char CHR ''0''))"
      using True digit_iff[of c] by (simp del: of_char_Char)
    also have "\<dots> = parse_port_loop cs (word_of_nat (10 * v + (of_char c - 48)))"
      by (simp only: loop_step[OF True])
    finally show ?thesis
      using True Cons.IH[of "10 * v + (of_char c - 48)"] by simp
  qed
qed

lemma dec_step_bound:
  "\<forall>c\<in>set s. digit c \<Longrightarrow>
     foldl (\<lambda>v c. 10 * v + (of_char c - 48)) (v::nat) s < (v + 1) * 10 ^ length s"
proof (induction s arbitrary: v)
  case Nil
  show ?case by simp
next
  case (Cons c cs)
  then have d: "(of_char c :: nat) - 48 \<le> 9"
    by (simp add: digit_code) arith
  have "foldl (\<lambda>v c. 10 * v + (of_char c - 48)) (10 * v + (of_char c - 48)) cs
          < (10 * v + (of_char c - 48) + 1) * 10 ^ length cs"
    using Cons by simp
  also have "\<dots> \<le> (10 * v + 10) * 10 ^ length cs"
    using d by (intro mult_right_mono) simp_all
  also have "\<dots> = (v + 1) * 10 ^ length (c # cs)"
    by (simp add: algebra_simps)
  finally show ?case by simp
qed

lemma dec_value_bound: "\<forall>c\<in>set s. digit c \<Longrightarrow> dec_value s < 10 ^ length s"
  using dec_step_bound[of s 0] by (simp add: dec_value_def)

lemma parse_port_loop_0:
  "parse_port_loop s 0 =
     (if \<forall>c\<in>set s. digit c then Some (word_of_nat (dec_value s)) else None)"
  using parse_port_loop_of_nat[of s 0] by (simp add: dec_value_def)

lemma take_clamp: "take (if length s > 5 then 5 else length s) s = take 5 s"
  by simp

lemma dec5_small:
  assumes "\<forall>c\<in>set (take 5 s). digit c"
  shows "dec_value (take 5 s) < 100000"
proof -
  have "dec_value (take 5 s) < 10 ^ length (take 5 s)"
    using assms by (rule dec_value_bound)
  also have "\<dots> \<le> (10::nat) ^ 5"
    by (intro power_increasing) simp_all
  finally show ?thesis by simp
qed

lemma ulong_gt: "v < 100000 \<Longrightarrow> (word_of_nat v :: ulong) > 65535 \<longleftrightarrow> v > 65535"
  by (simp add: word_less_nat_alt unat_of_nat)

lemma ulong_to_uint: "ucast (word_of_nat v :: ulong) = (word_of_nat v :: uint)"
  by (simp add: word_eq_iff_unsigned[where ?'a = nat] unsigned_ucast_eq unsigned_of_nat)

lemma unat_port: "v \<le> 65535 \<Longrightarrow> unat (word_of_nat v :: uint) = v"
  by (simp add: unat_of_nat)

text \<open>What \<open>parse_port\<close> returns and stores, for every input.\<close>

lemma parse_port_eq:
  "parse_port K p s =
     (if (\<exists>c\<in>set (take 5 s). \<not> digit c) \<or> dec_value (take 5 s) > 65535
      then (NETSTACK_ERROR_BAD_FIELD K, p)
      else (NETSTACK_ERROR_NONE K, word_of_nat (dec_value (take 5 s))))"
proof (cases "\<forall>c\<in>set (take 5 s). digit c")
  case False
  then show ?thesis
    by (simp only: parse_port_def Let_def take_clamp parse_port_loop_0) auto
next
  case True
  then show ?thesis
    using ulong_gt[OF dec5_small[OF True]]
    by (simp only: parse_port_def Let_def take_clamp parse_port_loop_0) (auto simp: ulong_to_uint)
qed

lemma set_source_eq:
  "netstack_tcp_set_source K tcp s =
     (if (\<exists>c\<in>set (take 5 s). \<not> digit c) \<or> dec_value (take 5 s) > 65535
      then (NETSTACK_ERROR_BAD_FIELD K, tcp)
      else (NETSTACK_ERROR_NONE K, tcp\<lparr>source := word_of_nat (dec_value (take 5 s))\<rparr>))"
  by (simp add: netstack_tcp_set_source_def parse_port_eq)

lemma set_destination_eq:
  "netstack_tcp_set_destination K tcp s =
     (if (\<exists>c\<in>set (take 5 s). \<not> digit c) \<or> dec_value (take 5 s) > 65535
      then (NETSTACK_ERROR_BAD_FIELD K, tcp)
      else (NETSTACK_ERROR_NONE K, tcp\<lparr>destination := word_of_nat (dec_value (take 5 s))\<rparr>))"
  by (simp add: netstack_tcp_set_destination_def parse_port_eq)

text \<open>
  C4. For every string of 1 to 5 ASCII decimal digits whose decimal value is at most
  65535, \<open>parse_port\<close> returns \<open>NETSTACK_ERROR_NONE\<close> and stores exactly that value
  (the stored word, read as a number, is the decimal value), and so do
  \<open>netstack_tcp_set_source\<close> and \<open>netstack_tcp_set_destination\<close> into their field.
\<close>

theorem parse_port_accepts_decimal:
  assumes "1 \<le> length s" and "length s \<le> 5"
    and "\<forall>c\<in>set s. digit c" and "dec_value s \<le> 65535"
  shows "parse_port K p s = (NETSTACK_ERROR_NONE K, word_of_nat (dec_value s))
       \<and> unat (word_of_nat (dec_value s) :: uint) = dec_value s
       \<and> netstack_tcp_set_source K tcp s =
           (NETSTACK_ERROR_NONE K, tcp\<lparr>source := word_of_nat (dec_value s)\<rparr>)
       \<and> netstack_tcp_set_destination K tcp s =
           (NETSTACK_ERROR_NONE K, tcp\<lparr>destination := word_of_nat (dec_value s)\<rparr>)"
proof -
  from assms(2) have t: "take 5 s = s"
    by simp
  show ?thesis
    using assms(3,4) by (simp add: parse_port_eq set_source_eq set_destination_eq t unat_port)
qed

theorem parse_port_accepts_decimal_witness:
  "length ''443'' = 3 \<and> list_all digit ''443'' \<and> dec_value ''443'' = 443
   \<and> parse_port demo_consts 7 ''443'' = (0, 443)
   \<and> netstack_tcp_set_destination demo_consts demo_tcp ''443'' = (0, demo_tcp\<lparr>destination := 443\<rparr>)"
  using parse_port_accepts_decimal[of "''443''" demo_consts 7 demo_tcp]
  by (simp add: digit_def dec_value_def demo_consts_def)

section \<open>The bytes written by pack and the fields read by unpack\<close>

text \<open>
  Each conditional \<open>|=\<close> of pack is one \<open>or_byte\<close> with a mask that may be zero, so the
  sequence of assignments unfolds without a case split per flag.
\<close>

lemma fold_or: "h[i := h ! i OR m] = or_byte i m h"
  by (simp add: or_byte_def)

lemma if_or_byte: "(if c then or_byte i m h else h) = or_byte i (if c then m else 0) h"
  by (simp add: or_byte_def)

lemma length_or_byte: "length (or_byte i m h) = length h"
  by (simp add: or_byte_def)

lemma nth_or_byte_eq: "i < length h \<Longrightarrow> or_byte i m h ! i = h ! i OR m"
  by (simp add: or_byte_def)

lemma nth_or_byte_neq: "i \<noteq> j \<Longrightarrow> or_byte i m h ! j = h ! j"
  by (simp add: or_byte_def)

lemma ucast_mask8: "(ucast (mask 8 AND w) :: uchar) = ucast w"
  by (rule bit_word_eqI) (auto simp: bit_simps dest: bit_imp_le_length)

lemma ucast_and_255: "(ucast (255 AND w) :: uchar) = ucast w" "(ucast (w AND 255) :: uchar) = ucast w"
proof -
  have m: "(255 :: 'a::len word) = mask 8"
    by (simp add: mask_eq_exp_minus_1)
  show "(ucast (255 AND w) :: uchar) = ucast w"
    unfolding m by (rule ucast_mask8)
  then show "(ucast (w AND 255) :: uchar) = ucast w"
    by (simp add: and.commute)
qed

lemmas pack_simps = pack_header_def Let_def fold_or if_or_byte length_or_byte nth_or_byte_eq nth_or_byte_neq

lemma length_pack_header: "length (pack_header K tcp h) = length h"
  by (simp add: pack_simps split del: if_split cong: if_cong)

text \<open>The 20 bytes \<open>netstack_tcp_pack\<close> leaves in a region of at least 20 bytes.\<close>

lemma pack_header_nth:
  assumes "20 \<le> length h"
  shows "pack_header K tcp h ! 0 = byte_at 8 (source tcp)"
    and "pack_header K tcp h ! 1 = byte_at 0 (source tcp)"
    and "pack_header K tcp h ! 2 = byte_at 8 (destination tcp)"
    and "pack_header K tcp h ! 3 = byte_at 0 (destination tcp)"
    and "pack_header K tcp h ! 4 = byte_at 24 (sequence tcp)"
    and "pack_header K tcp h ! 5 = byte_at 16 (sequence tcp)"
    and "pack_header K tcp h ! 6 = byte_at 8 (sequence tcp)"
    and "pack_header K tcp h ! 7 = byte_at 0 (sequence tcp)"
    and "pack_header K tcp h ! 8 = byte_at 24 (acknowledgment tcp)"
    and "pack_header K tcp h ! 9 = byte_at 16 (acknowledgment tcp)"
    and "pack_header K tcp h ! 10 = byte_at 8 (acknowledgment tcp)"
    and "pack_header K tcp h ! 11 = byte_at 0 (acknowledgment tcp)"
    and "pack_header K tcp h ! 12 = pack_byte12 K (control_bits tcp)"
    and "pack_header K tcp h ! 13 = pack_byte13 K (control_bits tcp)"
    and "pack_header K tcp h ! 14 = byte_at 8 (window_size tcp)"
    and "pack_header K tcp h ! 15 = byte_at 0 (window_size tcp)"
    and "pack_header K tcp h ! 16 = 0"
    and "pack_header K tcp h ! 17 = 0"
    and "pack_header K tcp h ! 18 = byte_at 8 (urgent_pointer tcp)"
    and "pack_header K tcp h ! 19 = byte_at 0 (urgent_pointer tcp)"
proof -
  from assms have l: "0 < length h" by linarith
  show "pack_header K tcp h ! 0 = byte_at 8 (source tcp)"
    and "pack_header K tcp h ! 1 = byte_at 0 (source tcp)"
    and "pack_header K tcp h ! 2 = byte_at 8 (destination tcp)"
    and "pack_header K tcp h ! 3 = byte_at 0 (destination tcp)"
    and "pack_header K tcp h ! 4 = byte_at 24 (sequence tcp)"
    and "pack_header K tcp h ! 5 = byte_at 16 (sequence tcp)"
    and "pack_header K tcp h ! 6 = byte_at 8 (sequence tcp)"
    and "pack_header K tcp h ! 7 = byte_at 0 (sequence tcp)"
    and "pack_header K tcp h ! 8 = byte_at 24 (acknowledgment tcp)"
    and "pack_header K tcp h ! 9 = byte_at 16 (acknowledgment tcp)"
    and "pack_header K tcp h ! 10 = byte_at 8 (acknowledgment tcp)"
    and "pack_header K tcp h ! 11 = byte_at 0 (acknowledgment tcp)"
    and "pack_header K tcp h ! 12 = pack_byte12 K (control_bits tcp)"
    and "pack_header K tcp h ! 13 = pack_byte13 K (control_bits tcp)"
    and "pack_header K tcp h ! 14 = byte_at 8 (window_size tcp)"
    and "pack_header K tcp h ! 15 = byte_at 0 (window_size tcp)"
    and "pack_header K tcp h ! 16 = 0"
    and "pack_header K tcp h ! 17 = 0"
    and "pack_header K tcp h ! 18 = byte_at 8 (urgent_pointer tcp)"
    and "pack_header K tcp h ! 19 = byte_at 0 (urgent_pointer tcp)"
    using assms l
    by (simp_all add: pack_simps byte_at_def pack_byte12_def pack_byte13_def ucast_and_255
          split del: if_split cong: if_cong)
qed

text \<open>The header \<open>netstack_tcp_unpack\<close> leaves, read from a buffer of at least 20 bytes.\<close>

lemma if_upd_cb:
  "(if c then tcp\<lparr>control_bits := control_bits tcp OR m\<rparr> else tcp)
     = tcp\<lparr>control_bits := control_bits tcp OR (if c then m else 0)\<rparr>"
  by simp

lemma unpack_eq:
  assumes "20 \<le> buffer_size buffer"
  shows "netstack_tcp_unpack K tcp buffer =
     (NETSTACK_ERROR_NONE K,
      tcp\<lparr>source := be16 (data buffer ! 0) (data buffer ! 1),
          destination := be16 (data buffer ! 2) (data buffer ! 3),
          sequence := be32 (data buffer ! 4) (data buffer ! 5) (data buffer ! 6) (data buffer ! 7),
          acknowledgment := be32 (data buffer ! 8) (data buffer ! 9) (data buffer ! 10) (data buffer ! 11),
          data_offset := ucast (drop_bit 4 (data buffer ! 12)),
          control_bits := unpack_flags K (data buffer ! 12) (data buffer ! 13),
          window_size := be16 (data buffer ! 14) (data buffer ! 15),
          checksum := be16 (data buffer ! 16) (data buffer ! 17),
          urgent_pointer := be16 (data buffer ! 18) (data buffer ! 19)\<rparr>)"
  using assms
  by (simp add: netstack_tcp_unpack_def Let_def if_upd_cb be16_def be32_def unpack_flags_def
        split del: if_split cong: if_cong)

lemma lt20:
  "pos < (20::nat) \<Longrightarrow>
     pos = 19 \<or> pos = 18 \<or> pos = 17 \<or> pos = 16 \<or> pos = 15 \<or> pos = 14 \<or> pos = 13 \<or>
     pos = 12 \<or> pos = 11 \<or> pos = 10 \<or> pos = 9 \<or> pos = 8 \<or> pos = 7 \<or> pos = 6 \<or>
     pos = 5 \<or> pos = 4 \<or> pos = 3 \<or> pos = 2 \<or> pos = 1 \<or> pos = 0"
  by presburger

lemma take20:
  assumes "20 \<le> length xs"
  shows "take 20 xs = [xs ! 0, xs ! 1, xs ! 2, xs ! 3, xs ! 4, xs ! 5, xs ! 6, xs ! 7, xs ! 8, xs ! 9,
     xs ! 10, xs ! 11, xs ! 12, xs ! 13, xs ! 14, xs ! 15, xs ! 16, xs ! 17, xs ! 18, xs ! 19]"
proof (rule nth_equalityI)
  show "length (take 20 xs) = length [xs ! 0, xs ! 1, xs ! 2, xs ! 3, xs ! 4, xs ! 5, xs ! 6, xs ! 7, xs ! 8, xs ! 9,
     xs ! 10, xs ! 11, xs ! 12, xs ! 13, xs ! 14, xs ! 15, xs ! 16, xs ! 17, xs ! 18, xs ! 19]"
    using assms by simp
next
  fix i assume "i < length (take 20 xs)"
  then have "i < 20" by simp
  then show "take 20 xs ! i = [xs ! 0, xs ! 1, xs ! 2, xs ! 3, xs ! 4, xs ! 5, xs ! 6, xs ! 7, xs ! 8, xs ! 9,
     xs ! 10, xs ! 11, xs ! 12, xs ! 13, xs ! 14, xs ! 15, xs ! 16, xs ! 17, xs ! 18, xs ! 19] ! i"
    by (elim lt20[THEN disjE] disjE) simp_all
qed

section \<open>Bytes back to fields\<close>

lemma masks_uint: "(255::uint) = mask 8" "(65535::uint) = mask 16"
  by (simp_all add: mask_eq_exp_minus_1)

lemma masks_ulong: "(255::ulong) = mask 8" "(4294967295::ulong) = mask 32"
  by (simp_all add: mask_eq_exp_minus_1)

lemma be16_bytes: "be16 (byte_at 8 s) (byte_at 0 s) = s AND 0xffff"
  unfolding be16_def byte_at_def
  apply (rule bit_word_eqI)
  subgoal for n
    by (cases "n < 8"; cases "n < 16"; auto simp: bit_simps masks_uint)
  done

lemma be32_bytes: "be32 (byte_at 24 s) (byte_at 16 s) (byte_at 8 s) (byte_at 0 s) = s AND 0xffffffff"
  unfolding be32_def byte_at_def
  apply (rule bit_word_eqI)
  subgoal for n
    by (cases "n < 8"; cases "n < 16"; cases "n < 24"; cases "n < 32";
        auto simp: bit_simps masks_ulong)
  done

lemma be16_zero: "be16 0 0 = 0"
  by (simp add: be16_def)

lemma be16_le: "be16 hi lo \<le> 65535"
proof -
  have "be16 hi lo AND mask 16 = be16 hi lo"
    unfolding be16_def by (rule bit_word_eqI) (auto simp: bit_simps; drule bit_imp_le_length; simp)
  then have "be16 hi lo \<le> mask 16"
    by (metis word_and_le1)
  then show ?thesis by (simp add: mask_eq_exp_minus_1)
qed

lemma be32_le: "be32 b3 b2 b1 b0 \<le> 4294967295"
proof -
  have "be32 b3 b2 b1 b0 AND mask 32 = be32 b3 b2 b1 b0"
    unfolding be32_def by (rule bit_word_eqI) (auto simp: bit_simps; drule bit_imp_le_length; simp)
  then have "be32 b3 b2 b1 b0 \<le> mask 32"
    by (metis word_and_le1)
  then show ?thesis by (simp add: mask_eq_exp_minus_1)
qed

lemma nibble_le: "(ucast (drop_bit 4 (b::uchar)) :: uint) \<le> 15"
proof -
  have "(ucast (drop_bit 4 b) :: uint) AND mask 4 = ucast (drop_bit 4 b)"
    by (rule bit_word_eqI) (auto simp: bit_simps dest: bit_imp_le_length)
  then have "(ucast (drop_bit 4 b) :: uint) \<le> mask 4"
    by (metis word_and_le1)
  then show ?thesis by (simp add: mask_eq_exp_minus_1)
qed

lemma byte12_offset: "(ucast (drop_bit 4 (pack_byte12 K cb)) :: uint) = 5"
  by (simp add: pack_byte12_def)

lemma byte12_ns: "pack_byte12 K cb AND 0x01 \<noteq> 0 \<longleftrightarrow> cb AND NETSTACK_TCP_NS K \<noteq> 0"
  by (simp add: pack_byte12_def)

lemma and_bit_uchar:
  "(x::uchar) AND 128 \<noteq> 0 \<longleftrightarrow> bit x 7" "(x::uchar) AND 64 \<noteq> 0 \<longleftrightarrow> bit x 6"
  "(x::uchar) AND 32 \<noteq> 0 \<longleftrightarrow> bit x 5" "(x::uchar) AND 16 \<noteq> 0 \<longleftrightarrow> bit x 4"
  "(x::uchar) AND 8 \<noteq> 0 \<longleftrightarrow> bit x 3" "(x::uchar) AND 4 \<noteq> 0 \<longleftrightarrow> bit x 2"
  "(x::uchar) AND 2 \<noteq> 0 \<longleftrightarrow> bit x 1" "(x::uchar) AND 1 \<noteq> 0 \<longleftrightarrow> bit x 0"
  using and_exp_eq_0_iff_not_bit[of x 7] and_exp_eq_0_iff_not_bit[of x 6]
    and_exp_eq_0_iff_not_bit[of x 5] and_exp_eq_0_iff_not_bit[of x 4]
    and_exp_eq_0_iff_not_bit[of x 3] and_exp_eq_0_iff_not_bit[of x 2]
    and_exp_eq_0_iff_not_bit[of x 1] and_exp_eq_0_iff_not_bit[of x 0]
  by simp_all

lemma bit_if: "bit (if c then a else b) n = (if c then bit a n else bit b n)"
  by simp

lemma if_bool: "(if c then True else False) = c"
  by simp

lemma byte13_bits:
  "pack_byte13 K cb AND 0x80 \<noteq> 0 \<longleftrightarrow> cb AND NETSTACK_TCP_CWR K \<noteq> 0"
  "pack_byte13 K cb AND 0x40 \<noteq> 0 \<longleftrightarrow> cb AND NETSTACK_TCP_ECE K \<noteq> 0"
  "pack_byte13 K cb AND 0x20 \<noteq> 0 \<longleftrightarrow> cb AND NETSTACK_TCP_URG K \<noteq> 0"
  "pack_byte13 K cb AND 0x10 \<noteq> 0 \<longleftrightarrow> cb AND NETSTACK_TCP_ACK K \<noteq> 0"
  "pack_byte13 K cb AND 0x08 \<noteq> 0 \<longleftrightarrow> cb AND NETSTACK_TCP_PSH K \<noteq> 0"
  "pack_byte13 K cb AND 0x04 \<noteq> 0 \<longleftrightarrow> cb AND NETSTACK_TCP_RST K \<noteq> 0"
  "pack_byte13 K cb AND 0x02 \<noteq> 0 \<longleftrightarrow> cb AND NETSTACK_TCP_SYN K \<noteq> 0"
  "pack_byte13 K cb AND 0x01 \<noteq> 0 \<longleftrightarrow> cb AND NETSTACK_TCP_FIN K \<noteq> 0"
  by (simp_all add: and_bit_uchar pack_byte13_def bit_or_iff bit_if if_bool
        split del: if_split cong: if_cong)

lemma flags_roundtrip:
  "unpack_flags K (pack_byte12 K cb) (pack_byte13 K cb) = flags_kept K cb"
  by (simp only: unpack_flags_def byte12_ns byte13_bits flags_kept_def)

section \<open>The control-bit constants\<close>

text \<open>
  A constant that is a single bit is kept by pack and unpack exactly when the control
  bits hold that bit, and every combination of the constants lies within their mask.
\<close>

lemma and_single_bit: "(cb :: uint) AND push_bit n 1 = (if bit cb n then push_bit n 1 else 0)"
  by (rule bit_word_eqI) (auto simp: bit_simps)

lemma push_bit_nonzero: "n < 32 \<Longrightarrow> (push_bit n 1 :: uint) \<noteq> 0"
  by simp

lemma single_bit_keep:
  assumes "single_bit f"
  shows "(if cb AND f \<noteq> 0 then f else 0) = cb AND f"
proof -
  from assms obtain n where n: "n < 32" and f: "f = push_bit n 1"
    unfolding single_bit_def by auto
  show ?thesis
    unfolding f and_single_bit using push_bit_nonzero[OF n] by simp
qed

lemma single_bit_nonzero: "single_bit f \<Longrightarrow> f \<noteq> 0"
  unfolding single_bit_def using push_bit_nonzero by auto

lemma single_bit_disjoint:
  assumes "single_bit f" "single_bit g" "f \<noteq> g"
  shows "f AND g = 0"
proof -
  from assms obtain m n where f: "f = push_bit m 1" and g: "g = push_bit n 1" and "m \<noteq> n"
    unfolding single_bit_def by auto
  have "\<not> bit (push_bit m 1 :: uint) n"
    using \<open>m \<noteq> n\<close> by (simp add: bit_simps)
  then show ?thesis
    unfolding f g and_single_bit by simp
qed

lemma flags_kept_mask:
  assumes "list_all single_bit (control_bit_values K)"
  shows "flags_kept K cb = cb AND flags_mask K"
proof -
  from assms have s: "single_bit (NETSTACK_TCP_NS K)" "single_bit (NETSTACK_TCP_CWR K)"
    "single_bit (NETSTACK_TCP_ECE K)" "single_bit (NETSTACK_TCP_URG K)"
    "single_bit (NETSTACK_TCP_ACK K)" "single_bit (NETSTACK_TCP_PSH K)"
    "single_bit (NETSTACK_TCP_RST K)" "single_bit (NETSTACK_TCP_SYN K)"
    "single_bit (NETSTACK_TCP_FIN K)"
    by (simp_all add: control_bit_values_def)
  show ?thesis
    unfolding flags_kept_def flags_mask_def
    by (simp only: s[THEN single_bit_keep] bit.conj_disj_distrib or.assoc)
qed

lemma in_mask_or: "x AND m = x \<Longrightarrow> y AND m = y \<Longrightarrow> (x OR y) AND m = x OR (y :: uint)"
  by (simp add: bit.conj_disj_distrib2)

lemma in_mask_if: "f AND m = f \<Longrightarrow> (if c then f else 0) AND m = (if c then f else (0 :: uint))"
  by simp

lemma and_or_absorb: "(f :: uint) AND (f OR r) = f"
  by (rule bit_word_eqI) (auto simp: bit_and_iff bit_or_iff)

lemma or_and_absorb: "((f :: uint) AND g) OR f = f"
  by (rule bit_word_eqI) (auto simp: bit_and_iff bit_or_iff)

lemma and_or_skip:
  assumes "(f :: uint) AND r = f"
  shows "f AND (g OR r) = f"
proof -
  have "f AND (g OR r) = (f AND g) OR (f AND r)"
    by (simp add: bit.conj_disj_distrib)
  also have "\<dots> = (f AND g) OR f"
    using assms by simp
  finally show ?thesis
    by (simp only: or_and_absorb)
qed

lemma member_in_combine: "f \<in> set fs \<Longrightarrow> f AND combine fs = f"
proof (induction fs)
  case Nil
  then show ?case by simp
next
  case (Cons g fs)
  show ?case
  proof (cases "f = g")
    case True
    then show ?thesis
      by (simp add: combine_def and_or_absorb)
  next
    case False
    with Cons have "f AND combine fs = f"
      by simp
    then have "f AND (g OR combine fs) = f"
      by (rule and_or_skip)
    then show ?thesis
      by (simp add: combine_def)
  qed
qed

lemma flags_mask_combine: "flags_mask K = combine (control_bit_values K)"
  by (simp add: flags_mask_def combine_def control_bit_values_def)

lemma flag_in_mask: "f \<in> set (control_bit_values K) \<Longrightarrow> f AND flags_mask K = f"
  by (simp only: flags_mask_combine member_in_combine)

lemma unpack_flags_in_mask: "unpack_flags K b12 b13 AND flags_mask K = unpack_flags K b12 b13"
  unfolding unpack_flags_def
  by (intro in_mask_or in_mask_if flag_in_mask) (simp_all add: control_bit_values_def)

lemma combine_in_mask:
  "set fs \<subseteq> set (control_bit_values K) \<Longrightarrow> combine fs AND flags_mask K = combine fs"
proof (induction fs)
  case Nil
  show ?case by (simp add: combine_def)
next
  case (Cons f fs)
  then have "f AND flags_mask K = f"
    by (simp add: flag_in_mask)
  moreover have "combine fs AND flags_mask K = combine fs"
    using Cons by simp
  ultimately show ?case
    by (simp add: combine_def in_mask_or)
qed

lemma and_mask16:
  assumes "(s::uint) \<le> 65535"
  shows "s AND 0xffff = s"
proof -
  have "s < 2 ^ 16"
    using assms by (simp add: word_less_nat_alt word_le_nat_alt)
  then have "s AND mask 16 = s"
    by (rule less_mask_eq)
  then show ?thesis
    by (simp add: mask_eq_exp_minus_1)
qed

lemma and_mask32:
  assumes "(s::ulong) \<le> 4294967295"
  shows "s AND 0xffffffff = s"
proof -
  have "s < 2 ^ 32"
    using assms by (simp add: word_less_nat_alt word_le_nat_alt)
  then have "s AND mask 32 = s"
    by (rule less_mask_eq)
  then show ?thesis
    by (simp add: mask_eq_exp_minus_1)
qed

section \<open>Pack followed by unpack\<close>

text \<open>
  What unpack reads from the buffer pack has written, for every header and every content
  of the inserted bytes: each field cut to its width in the 20 bytes, \<open>data_offset\<close> 5
  and \<open>checksum\<close> 0.
\<close>

lemma pack_ok:
  "netstack_tcp_pack K 0 fill tcp b =
     (NETSTACK_ERROR_NONE K, tcp, b\<lparr>data := pack_header K tcp (map fill [0..<20] @ data b)\<rparr>)"
  by (simp add: netstack_tcp_pack_def netstack_buffer_shift_def)

lemma packed_size: "20 \<le> buffer_size (b\<lparr>data := pack_header K tcp (map fill [0..<20] @ data b)\<rparr>)"
  by (simp add: buffer_size_def length_pack_header)

lemma data_update: "data (b\<lparr>data := h\<rparr>) = h"
  by simp

lemma pack_unpack:
  "netstack_tcp_unpack K tcp0 (snd (snd (netstack_tcp_pack K 0 fill tcp b))) =
     (NETSTACK_ERROR_NONE K,
      tcp0\<lparr>source := source tcp AND 0xffff,
          destination := destination tcp AND 0xffff,
          sequence := sequence tcp AND 0xffffffff,
          acknowledgment := acknowledgment tcp AND 0xffffffff,
          data_offset := 5,
          control_bits := flags_kept K (control_bits tcp),
          window_size := window_size tcp AND 0xffff,
          checksum := 0,
          urgent_pointer := urgent_pointer tcp AND 0xffff\<rparr>)"
proof -
  have l: "20 \<le> length (map fill [0..<20] @ data b)"
    by simp
  show ?thesis
    by (simp only: pack_ok snd_conv unpack_eq[OF packed_size] data_update
          pack_header_nth[OF l] be16_bytes be32_bytes be16_zero byte12_offset flags_roundtrip)
qed

lemma single_bitI: "n < 32 \<Longrightarrow> single_bit (push_bit n 1)"
  unfolding single_bit_def by auto

lemma demo_consts_wellformed: "control_bits_wellformed demo_consts"
proof -
  have "single_bit 0x100" "single_bit 0x80" "single_bit 0x40" "single_bit 0x20" "single_bit 0x10"
    "single_bit 0x08" "single_bit 0x04" "single_bit 0x02" "single_bit 0x01"
    using single_bitI[of 8] single_bitI[of 7] single_bitI[of 6] single_bitI[of 5] single_bitI[of 4]
      single_bitI[of 3] single_bitI[of 2] single_bitI[of 1] single_bitI[of 0]
    by simp_all
  then show ?thesis
    by (simp add: control_bits_wellformed_def control_bit_values_def demo_consts_def)
qed

section \<open>The properties of the codec\<close>

subsection \<open>The field parser and the setters\<close>

text \<open>
  C5. \<open>parse_port\<close> returns \<open>NETSTACK_ERROR_BAD_FIELD\<close> and leaves the destination as it
  was whenever one of the first \<open>min (length, 5)\<close> characters is not a digit, or the
  value accumulated from these characters exceeds 65535; in every other case it returns
  \<open>NETSTACK_ERROR_NONE\<close> (and stores that value). Each setter does the same with its
  field of the header.
\<close>

theorem parse_port_outcome:
  "parse_port K p s =
     (if (\<exists>c\<in>set (take (min (length s) 5) s). \<not> digit c) \<or> 65535 < dec_value (take (min (length s) 5) s)
      then (NETSTACK_ERROR_BAD_FIELD K, p)
      else (NETSTACK_ERROR_NONE K, word_of_nat (dec_value (take (min (length s) 5) s))))
   \<and> netstack_tcp_set_source K tcp s =
     (if (\<exists>c\<in>set (take (min (length s) 5) s). \<not> digit c) \<or> 65535 < dec_value (take (min (length s) 5) s)
      then (NETSTACK_ERROR_BAD_FIELD K, tcp)
      else (NETSTACK_ERROR_NONE K, tcp\<lparr>source := word_of_nat (dec_value (take (min (length s) 5) s))\<rparr>))
   \<and> netstack_tcp_set_destination K tcp s =
     (if (\<exists>c\<in>set (take (min (length s) 5) s). \<not> digit c) \<or> 65535 < dec_value (take (min (length s) 5) s)
      then (NETSTACK_ERROR_BAD_FIELD K, tcp)
      else (NETSTACK_ERROR_NONE K, tcp\<lparr>destination := word_of_nat (dec_value (take (min (length s) 5) s))\<rparr>))"
proof -
  have "take (min (length s) 5) s = take 5 s"
    by (simp add: min_def)
  then show ?thesis
    by (simp only: parse_port_eq set_source_eq set_destination_eq simp_thms)
qed

theorem parse_port_outcome_witness:
  "parse_port demo_consts 7 ''80a'' = (1, 7) \<and> parse_port demo_consts 7 ''70000'' = (1, 7)
   \<and> parse_port demo_consts 7 '''' = (0, 0)
   \<and> netstack_tcp_set_source demo_consts demo_tcp ''x'' = (1, demo_tcp)"
  using parse_port_outcome[of demo_consts 7 "''80a''" demo_tcp]
    parse_port_outcome[of demo_consts 7 "''70000''" demo_tcp]
    parse_port_outcome[of demo_consts 7 "''''" demo_tcp]
    parse_port_outcome[of demo_consts 7 "''x''" demo_tcp]
  by (simp add: digit_def dec_value_def demo_consts_def)

text \<open>
  C6. \<open>parse_port\<close> consults at most the first 5 characters: for a string longer than 5
  characters whose first 5 characters are digits of a value at most 65535 the call
  succeeds with the value of those 5 digits, and whatever follows them, digit or not,
  changes neither the return code nor the value stored.
\<close>

theorem parse_port_clamp:
  assumes "5 < length s" and "\<forall>c\<in>set (take 5 s). digit c" and "dec_value (take 5 s) \<le> 65535"
  shows "parse_port K p s = (NETSTACK_ERROR_NONE K, word_of_nat (dec_value (take 5 s)))
       \<and> unat (word_of_nat (dec_value (take 5 s)) :: uint) = dec_value (take 5 s)
       \<and> parse_port K p (take 5 s @ rest) = parse_port K p s"
proof -
  have t: "take 5 (take 5 s @ rest) = take 5 s"
    using assms(1) by simp
  have a: "parse_port K p s = (NETSTACK_ERROR_NONE K, word_of_nat (dec_value (take 5 s)))"
    using assms(2,3) by (simp add: parse_port_eq)
  have b: "unat (word_of_nat (dec_value (take 5 s)) :: uint) = dec_value (take 5 s)"
    using assms(3) by (rule unat_port)
  have c: "parse_port K p (take 5 s @ rest) = parse_port K p s"
    by (simp only: parse_port_eq t)
  show ?thesis
    by (rule conjI[OF a conjI[OF b c]])
qed

theorem parse_port_clamp_witness:
  "parse_port demo_consts 7 ''443219'' = (0, 44321)
   \<and> parse_port demo_consts 7 ''44321!?'' = (0, 44321)"
  using parse_port_clamp[of "''443219''" demo_consts 7 "''!?''"]
  by (simp add: digit_def dec_value_def demo_consts_def)

subsection \<open>Unpack, mutate and the failure of pack\<close>

text \<open>
  C7. \<open>netstack_tcp_unpack\<close> returns \<open>NETSTACK_ERROR_MISSING_DATA\<close> and leaves every
  field of the header as it was when the buffer holds fewer than 20 bytes; when it holds
  at least 20 it returns \<open>NETSTACK_ERROR_NONE\<close>, whatever the bytes are.
\<close>

theorem unpack_length_check:
  "(buffer_size buffer < 20 \<longrightarrow>
      netstack_tcp_unpack K tcp buffer = (NETSTACK_ERROR_MISSING_DATA K, tcp))
   \<and> (20 \<le> buffer_size buffer \<longrightarrow>
      fst (netstack_tcp_unpack K tcp buffer) = NETSTACK_ERROR_NONE K)"
  by (simp add: unpack_eq) (simp add: netstack_tcp_unpack_def)

theorem unpack_length_check_witness:
  "netstack_tcp_unpack demo_consts demo_tcp \<lparr>data = replicate 19 0xFF\<rparr> = (2, demo_tcp)
   \<and> fst (netstack_tcp_unpack demo_consts demo_tcp \<lparr>data = replicate 20 0xFF\<rparr>) = 0"
  using unpack_length_check[of "\<lparr>data = replicate 19 0xFF\<rparr>" demo_consts demo_tcp]
    unpack_length_check[of "\<lparr>data = replicate 20 0xFF\<rparr>" demo_consts demo_tcp]
  by (simp add: buffer_size_def demo_consts_def)

text \<open>
  C8. \<open>netstack_tcp_mutate\<close> with a mutator whose callback is null returns
  \<open>NETSTACK_ERROR_NONE\<close> and leaves the header unchanged; with a callback it returns
  the callback's return code and leaves the header exactly as the callback has edited
  it.
\<close>

theorem mutate_callback:
  "(mutate_tcp mutator = None \<longrightarrow>
      netstack_tcp_mutate K tcp mutator = (NETSTACK_ERROR_NONE K, tcp))
   \<and> (\<forall>f. mutate_tcp mutator = Some f \<longrightarrow>
      netstack_tcp_mutate K tcp mutator = f (mutator_data mutator) tcp)"
  by (simp add: netstack_tcp_mutate_def)

theorem mutate_callback_witness:
  "netstack_tcp_mutate demo_consts demo_tcp \<lparr>mutator_data = (4321 :: uint), mutate_tcp = None\<rparr>
     = (0, demo_tcp)
   \<and> netstack_tcp_mutate demo_consts demo_tcp
       \<lparr>mutator_data = (4321 :: uint), mutate_tcp = Some (\<lambda>d t. (17, t\<lparr>window_size := d\<rparr>))\<rparr>
     = (17, demo_tcp\<lparr>window_size := 4321\<rparr>)"
  using mutate_callback[of "\<lparr>mutator_data = (4321 :: uint), mutate_tcp = None\<rparr>" demo_consts demo_tcp]
    mutate_callback[of "\<lparr>mutator_data = (4321 :: uint),
        mutate_tcp = Some (\<lambda>d t. (17, t\<lparr>window_size := d\<rparr>))\<rparr>" demo_consts demo_tcp]
  by (simp add: demo_consts_def)

text \<open>
  C9. When the shift of the buffer by 20 bytes fails, \<open>netstack_tcp_pack\<close> returns the
  code of the shift and leaves buffer and header as they were; when the shift succeeds
  it returns \<open>NETSTACK_ERROR_NONE\<close>. In both cases the header is not modified.
\<close>

theorem pack_shift_failure:
  "(fst (netstack_buffer_shift alloc fill buffer 20) \<noteq> 0 \<longrightarrow>
      netstack_tcp_pack K alloc fill tcp buffer = (fst (netstack_buffer_shift alloc fill buffer 20), tcp, buffer))
   \<and> (fst (netstack_buffer_shift alloc fill buffer 20) = 0 \<longrightarrow>
      fst (netstack_tcp_pack K alloc fill tcp buffer) = NETSTACK_ERROR_NONE K)
   \<and> fst (snd (netstack_tcp_pack K alloc fill tcp buffer)) = tcp"
  by (simp add: netstack_tcp_pack_def netstack_buffer_shift_def)

theorem pack_shift_failure_witness:
  "netstack_tcp_pack demo_consts 12 (\<lambda>i. 0xCC) demo_tcp \<lparr>data = [0xAA]\<rparr> = (12, demo_tcp, \<lparr>data = [0xAA]\<rparr>)
   \<and> fst (netstack_tcp_pack demo_consts 0 (\<lambda>i. 0xCC) demo_tcp \<lparr>data = [0xAA]\<rparr>) = 0"
  using pack_shift_failure[of 12 "\<lambda>i. 0xCC" "\<lparr>data = [0xAA]\<rparr>" demo_consts demo_tcp]
    pack_shift_failure[of 0 "\<lambda>i. 0xCC" "\<lparr>data = [0xAA]\<rparr>" demo_consts demo_tcp]
  by (simp add: netstack_buffer_shift_def demo_consts_def)

subsection \<open>The bytes pack writes\<close>

lemma pack_header_ignores:
  "pack_header K (tcp\<lparr>data_offset := x, checksum := y\<rparr>) h = pack_header K tcp h"
  by (simp add: pack_simps split del: if_split cong: if_cong)

lemma packed_data:
  "data (snd (snd (netstack_tcp_pack K 0 fill tcp b))) = pack_header K tcp (map fill [0..<20] @ data b)"
  by (simp add: pack_ok)

lemma packed_len: "20 \<le> length (map (fill :: nat \<Rightarrow> uchar) [0..<20] @ xs)"
  by simp

text \<open>
  C3. Whatever the header's \<open>data_offset\<close> and \<open>checksum\<close> fields hold,
  \<open>netstack_tcp_pack\<close> writes 5 into the high nibble of byte 12, the NS flag into its
  low bit (so byte 12 is \<open>0x51\<close> with NS and \<open>0x50\<close> without), and zero into bytes 16
  and 17, whatever the bytes inserted by the shift held; the two fields have no influence
  on the buffer written.
\<close>

theorem pack_fixed_bytes:
  "data (snd (snd (netstack_tcp_pack K 0 fill tcp b))) ! 12 =
     (if control_bits tcp AND NETSTACK_TCP_NS K \<noteq> 0 then 0x51 else 0x50)
   \<and> drop_bit 4 (data (snd (snd (netstack_tcp_pack K 0 fill tcp b))) ! 12) = 5
   \<and> data (snd (snd (netstack_tcp_pack K 0 fill tcp b))) ! 16 = 0
   \<and> data (snd (snd (netstack_tcp_pack K 0 fill tcp b))) ! 17 = 0
   \<and> netstack_tcp_pack K 0 fill (tcp\<lparr>data_offset := x, checksum := y\<rparr>) b =
       (NETSTACK_ERROR_NONE K, tcp\<lparr>data_offset := x, checksum := y\<rparr>,
        snd (snd (netstack_tcp_pack K 0 fill tcp b)))"
proof -
  have "data (snd (snd (netstack_tcp_pack K 0 fill tcp b))) ! 12 = pack_byte12 K (control_bits tcp)"
    and "data (snd (snd (netstack_tcp_pack K 0 fill tcp b))) ! 16 = 0"
    and "data (snd (snd (netstack_tcp_pack K 0 fill tcp b))) ! 17 = 0"
    by (simp_all only: packed_data pack_header_nth[OF packed_len])
  moreover have "netstack_tcp_pack K 0 fill (tcp\<lparr>data_offset := x, checksum := y\<rparr>) b =
       (NETSTACK_ERROR_NONE K, tcp\<lparr>data_offset := x, checksum := y\<rparr>,
        snd (snd (netstack_tcp_pack K 0 fill tcp b)))"
    by (simp only: pack_ok pack_header_ignores snd_conv)
  ultimately show ?thesis
    by (simp add: pack_byte12_def)
qed

theorem pack_fixed_bytes_witness:
  "data (snd (snd (netstack_tcp_pack demo_consts 0 (\<lambda>i. 0xCC)
      (demo_tcp\<lparr>data_offset := 9, checksum := 0xBEEF, control_bits := 0x100\<rparr>) \<lparr>data = [0xAA]\<rparr>))) ! 12 = 0x51
   \<and> data (snd (snd (netstack_tcp_pack demo_consts 0 (\<lambda>i. 0xCC)
      (demo_tcp\<lparr>data_offset := 9, checksum := 0xBEEF, control_bits := 0x100\<rparr>) \<lparr>data = [0xAA]\<rparr>))) ! 16 = 0"
  using pack_fixed_bytes[of demo_consts "\<lambda>i. 0xCC"
      "demo_tcp\<lparr>data_offset := 9, checksum := 0xBEEF, control_bits := 0x100\<rparr>" "\<lparr>data = [0xAA]\<rparr>"]
  by (simp add: demo_consts_def)

lemma syn_only:
  assumes "control_bits_wellformed K"
  shows "pack_byte12 K (NETSTACK_TCP_SYN K) = 0x50" and "pack_byte13 K (NETSTACK_TCP_SYN K) = 0x02"
proof -
  from assms have s: "single_bit (NETSTACK_TCP_NS K)" "single_bit (NETSTACK_TCP_CWR K)"
    "single_bit (NETSTACK_TCP_ECE K)" "single_bit (NETSTACK_TCP_URG K)"
    "single_bit (NETSTACK_TCP_ACK K)" "single_bit (NETSTACK_TCP_PSH K)"
    "single_bit (NETSTACK_TCP_RST K)" "single_bit (NETSTACK_TCP_SYN K)"
    "single_bit (NETSTACK_TCP_FIN K)"
    by (simp_all add: control_bits_wellformed_def control_bit_values_def)
  from assms have dist: "distinct (control_bit_values K)"
    by (simp add: control_bits_wellformed_def)
  have len: "length (control_bit_values K) = 9"
    by (simp add: control_bit_values_def)
  have ne: "control_bit_values K ! 7 \<noteq> control_bit_values K ! i" if "i < 9" "i \<noteq> 7" for i
    using nth_eq_iff_index_eq[OF dist, of 7 i] that by (simp add: len)
  have d: "NETSTACK_TCP_SYN K \<noteq> NETSTACK_TCP_NS K" "NETSTACK_TCP_SYN K \<noteq> NETSTACK_TCP_CWR K"
    "NETSTACK_TCP_SYN K \<noteq> NETSTACK_TCP_ECE K" "NETSTACK_TCP_SYN K \<noteq> NETSTACK_TCP_URG K"
    "NETSTACK_TCP_SYN K \<noteq> NETSTACK_TCP_ACK K" "NETSTACK_TCP_SYN K \<noteq> NETSTACK_TCP_PSH K"
    "NETSTACK_TCP_SYN K \<noteq> NETSTACK_TCP_RST K" "NETSTACK_TCP_SYN K \<noteq> NETSTACK_TCP_FIN K"
    using ne[of 0] ne[of 1] ne[of 2] ne[of 3] ne[of 4] ne[of 5] ne[of 6] ne[of 8]
    by (simp_all add: control_bit_values_def)
  note z = single_bit_disjoint[OF s(8) s(1) d(1)] single_bit_disjoint[OF s(8) s(2) d(2)]
    single_bit_disjoint[OF s(8) s(3) d(3)] single_bit_disjoint[OF s(8) s(4) d(4)]
    single_bit_disjoint[OF s(8) s(5) d(5)] single_bit_disjoint[OF s(8) s(6) d(6)]
    single_bit_disjoint[OF s(8) s(7) d(7)] single_bit_disjoint[OF s(8) s(9) d(8)]
  show "pack_byte12 K (NETSTACK_TCP_SYN K) = 0x50"
    by (simp add: pack_byte12_def z)
  show "pack_byte13 K (NETSTACK_TCP_SYN K) = 0x02"
    by (simp add: pack_byte13_def z single_bit_nonzero[OF s(8)])
qed

text \<open>
  C2. Packing the header with source 80, destination 443, sequence 1, acknowledgment 0,
  control bits SYN, window size 1, checksum 0 and urgent pointer 0 puts exactly the bytes
  \<open>00 50 01 BB 00 00 00 01 00 00 00 00 50 02 00 01 00 00 00 00\<close> at the front of the
  buffer, whatever the bytes inserted by the shift held. The value of the constant
  \<open>NETSTACK_TCP_SYN\<close> is not fixed here: the nine control-bit constants are nine distinct
  single bits.
\<close>

theorem pack_syn_bytes:
  assumes "control_bits_wellformed K"
  shows "take 20 (data (snd (snd (netstack_tcp_pack K 0 fill
            \<lparr>source = 80, destination = 443, sequence = 1, acknowledgment = 0, data_offset = off,
             control_bits = NETSTACK_TCP_SYN K, window_size = 1, checksum = 0, urgent_pointer = 0\<rparr>
            b)))) =
         [0x00, 0x50, 0x01, 0xBB, 0x00, 0x00, 0x00, 0x01, 0x00, 0x00, 0x00, 0x00,
          0x50, 0x02, 0x00, 0x01, 0x00, 0x00, 0x00, 0x00]"
proof -
  have l: "20 \<le> length (pack_header K
            \<lparr>source = 80, destination = 443, sequence = 1, acknowledgment = 0, data_offset = off,
             control_bits = NETSTACK_TCP_SYN K, window_size = 1, checksum = 0, urgent_pointer = 0\<rparr>
            (map fill [0..<20] @ data b))"
    by (simp add: length_pack_header)
  show ?thesis
    by (simp only: packed_data take20[OF l] pack_header_nth[OF packed_len] syn_only[OF assms]
          netstack_tcp.simps)
       (simp add: byte_at_def)
qed

theorem pack_syn_bytes_witness:
  "take 20 (data (snd (snd (netstack_tcp_pack demo_consts 0 (\<lambda>i. 0xCC)
            \<lparr>source = 80, destination = 443, sequence = 1, acknowledgment = 0, data_offset = 5,
             control_bits = 0x02, window_size = 1, checksum = 0, urgent_pointer = 0\<rparr>
            \<lparr>data = [0xAA, 0xBB]\<rparr>)))) =
         [0x00, 0x50, 0x01, 0xBB, 0x00, 0x00, 0x00, 0x01, 0x00, 0x00, 0x00, 0x00,
          0x50, 0x02, 0x00, 0x01, 0x00, 0x00, 0x00, 0x00]"
  using pack_syn_bytes[OF demo_consts_wellformed, of "\<lambda>i. 0xCC" 5 "\<lparr>data = [0xAA, 0xBB]\<rparr>"]
  by (simp add: demo_consts_def)

subsection \<open>Pack, then unpack\<close>

text \<open>
  C1, as amended. For every header whose ports, window size and urgent pointer are at
  most 65535, whose sequence and acknowledgment numbers are at most 4294967295 and whose
  control bits are a combination of the nine flags, packing it and unpacking the buffer
  succeeds and yields the same header with \<open>data_offset\<close> 5 and \<open>checksum\<close> 0, whatever
  these two fields held before, whatever the header unpacked into held and whatever the
  bytes inserted by the shift held. The nine control-bit constants are nine distinct
  single bits.
\<close>

theorem pack_unpack_roundtrip:
  assumes "control_bits_wellformed K"
    and "source h \<le> 65535" and "destination h \<le> 65535"
    and "sequence h \<le> 4294967295" and "acknowledgment h \<le> 4294967295"
    and "window_size h \<le> 65535" and "urgent_pointer h \<le> 65535"
    and "set fs \<subseteq> set (control_bit_values K)" and "control_bits h = combine fs"
  shows "netstack_tcp_unpack K t (snd (snd (netstack_tcp_pack K 0 fill h b))) =
           (NETSTACK_ERROR_NONE K, h\<lparr>data_offset := 5, checksum := 0\<rparr>)"
proof -
  have "flags_kept K (control_bits h) = control_bits h AND flags_mask K"
    using assms(1) by (simp add: control_bits_wellformed_def flags_kept_mask)
  also have "\<dots> = control_bits h"
    using assms(8,9) by (simp add: combine_in_mask)
  finally have cb: "flags_kept K (control_bits h) = control_bits h" .
  show ?thesis
    using assms(2-7)
    by (simp add: pack_unpack cb and_mask16 and_mask32)
qed

theorem pack_unpack_roundtrip_witness:
  "netstack_tcp_unpack demo_consts (netstack_tcp_init demo_tcp)
     (snd (snd (netstack_tcp_pack demo_consts 0 (\<lambda>i. 0xCC) (demo_tcp\<lparr>data_offset := 9, checksum := 0xBEEF\<rparr>)
        \<lparr>data = [0xAA]\<rparr>))) = (0, demo_tcp)"
  using pack_unpack_roundtrip[of demo_consts "demo_tcp\<lparr>data_offset := 9, checksum := 0xBEEF\<rparr>"
      "[0x02, 0x10]" "netstack_tcp_init demo_tcp" "\<lambda>i. 0xCC" "\<lparr>data = [0xAA]\<rparr>"] demo_consts_wellformed
  by (simp add: demo_tcp_def demo_consts_def control_bit_values_def combine_def)

text \<open>
  Without the bounds the equality fails: the fields are wider than their place in the
  header, and pack keeps the low 16 bits of a port. A source of 65536 comes back as 0.
\<close>

theorem pack_unpack_wide_source:
  "source (snd (netstack_tcp_unpack demo_consts demo_tcp
     (snd (snd (netstack_tcp_pack demo_consts 0 (\<lambda>i. 0xCC) (demo_tcp\<lparr>source := 65536\<rparr>) \<lparr>data = []\<rparr>)))))
   \<noteq> source (demo_tcp\<lparr>source := 65536\<rparr>)"
  by (simp add: pack_unpack)

subsection \<open>The widths of the fields\<close>

lemma field_widths_init: "field_widths K (netstack_tcp_init tcp)"
  by (simp add: field_widths_def netstack_tcp_init_def)

lemma field_widths_unpack:
  "20 \<le> buffer_size buffer \<Longrightarrow> field_widths K (snd (netstack_tcp_unpack K tcp buffer))"
  by (simp add: unpack_eq field_widths_def be16_le be32_le nibble_le unpack_flags_in_mask)

lemma unpack_success:
  assumes "NETSTACK_ERROR_NONE K \<noteq> NETSTACK_ERROR_MISSING_DATA K"
    and "fst (netstack_tcp_unpack K tcp buffer) = NETSTACK_ERROR_NONE K"
  shows "20 \<le> buffer_size buffer"
proof (rule ccontr)
  assume "\<not> 20 \<le> buffer_size buffer"
  then have "netstack_tcp_unpack K tcp buffer = (NETSTACK_ERROR_MISSING_DATA K, tcp)"
    by (simp add: netstack_tcp_unpack_def)
  with assms show False
    by simp
qed

lemma port_le: "v \<le> 65535 \<Longrightarrow> (word_of_nat v :: uint) \<le> 65535"
  by (simp add: word_le_nat_alt unat_of_nat)

lemma set_source_success:
  assumes "NETSTACK_ERROR_NONE K \<noteq> NETSTACK_ERROR_BAD_FIELD K"
    and "fst (netstack_tcp_set_source K tcp s) = NETSTACK_ERROR_NONE K"
  shows "source (snd (netstack_tcp_set_source K tcp s)) \<le> 65535"
    and "snd (netstack_tcp_set_source K tcp s) =
           tcp\<lparr>source := source (snd (netstack_tcp_set_source K tcp s))\<rparr>"
  using assms by (auto simp: set_source_eq port_le split: if_splits)

lemma set_destination_success:
  assumes "NETSTACK_ERROR_NONE K \<noteq> NETSTACK_ERROR_BAD_FIELD K"
    and "fst (netstack_tcp_set_destination K tcp s) = NETSTACK_ERROR_NONE K"
  shows "destination (snd (netstack_tcp_set_destination K tcp s)) \<le> 65535"
    and "snd (netstack_tcp_set_destination K tcp s) =
           tcp\<lparr>destination := destination (snd (netstack_tcp_set_destination K tcp s))\<rparr>"
  using assms by (auto simp: set_destination_eq port_le split: if_splits)

lemma field_widths_source:
  "field_widths K tcp \<Longrightarrow> v \<le> 65535 \<Longrightarrow> field_widths K (tcp\<lparr>source := v\<rparr>)"
  by (simp add: field_widths_def)

lemma field_widths_destination:
  "field_widths K tcp \<Longrightarrow> v \<le> 65535 \<Longrightarrow> field_widths K (tcp\<lparr>destination := v\<rparr>)"
  by (simp add: field_widths_def)

text \<open>
  C10, as amended. The header \<open>netstack_tcp_init\<close> produces and the header a successful
  \<open>netstack_tcp_unpack\<close> produces satisfy the field-width invariants. A successful setter
  stores a port of at most 65535 in its field and changes no other field; so a header
  that satisfied the invariants before a successful setter satisfies them after it. A
  call is successful when it returns \<open>NETSTACK_ERROR_NONE\<close>, a code that differs from the
  two error codes.
\<close>

theorem field_widths_maintained:
  assumes "NETSTACK_ERROR_NONE K \<noteq> NETSTACK_ERROR_BAD_FIELD K"
    and "NETSTACK_ERROR_NONE K \<noteq> NETSTACK_ERROR_MISSING_DATA K"
  shows "field_widths K (netstack_tcp_init tcp)
     \<and> (fst (netstack_tcp_unpack K tcp buffer) = NETSTACK_ERROR_NONE K \<longrightarrow>
          field_widths K (snd (netstack_tcp_unpack K tcp buffer)))
     \<and> (fst (netstack_tcp_set_source K tcp s) = NETSTACK_ERROR_NONE K \<longrightarrow>
          source (snd (netstack_tcp_set_source K tcp s)) \<le> 65535
          \<and> snd (netstack_tcp_set_source K tcp s) =
              tcp\<lparr>source := source (snd (netstack_tcp_set_source K tcp s))\<rparr>
          \<and> (field_widths K tcp \<longrightarrow> field_widths K (snd (netstack_tcp_set_source K tcp s))))
     \<and> (fst (netstack_tcp_set_destination K tcp s) = NETSTACK_ERROR_NONE K \<longrightarrow>
          destination (snd (netstack_tcp_set_destination K tcp s)) \<le> 65535
          \<and> snd (netstack_tcp_set_destination K tcp s) =
              tcp\<lparr>destination := destination (snd (netstack_tcp_set_destination K tcp s))\<rparr>
          \<and> (field_widths K tcp \<longrightarrow> field_widths K (snd (netstack_tcp_set_destination K tcp s))))"
proof (intro conjI impI)
  show "field_widths K (netstack_tcp_init tcp)"
    by (rule field_widths_init)
next
  assume "fst (netstack_tcp_unpack K tcp buffer) = NETSTACK_ERROR_NONE K"
  then show "field_widths K (snd (netstack_tcp_unpack K tcp buffer))"
    by (intro field_widths_unpack unpack_success[OF assms(2)])
next
  assume ok: "fst (netstack_tcp_set_source K tcp s) = NETSTACK_ERROR_NONE K"
  show le: "source (snd (netstack_tcp_set_source K tcp s)) \<le> 65535"
    by (rule set_source_success(1)[OF assms(1) ok])
  show eq: "snd (netstack_tcp_set_source K tcp s) =
              tcp\<lparr>source := source (snd (netstack_tcp_set_source K tcp s))\<rparr>"
    by (rule set_source_success(2)[OF assms(1) ok])
  assume "field_widths K tcp"
  then have "field_widths K (tcp\<lparr>source := source (snd (netstack_tcp_set_source K tcp s))\<rparr>)"
    using le by (rule field_widths_source)
  then show "field_widths K (snd (netstack_tcp_set_source K tcp s))"
    using eq by simp
next
  assume ok: "fst (netstack_tcp_set_destination K tcp s) = NETSTACK_ERROR_NONE K"
  show le: "destination (snd (netstack_tcp_set_destination K tcp s)) \<le> 65535"
    by (rule set_destination_success(1)[OF assms(1) ok])
  show eq: "snd (netstack_tcp_set_destination K tcp s) =
              tcp\<lparr>destination := destination (snd (netstack_tcp_set_destination K tcp s))\<rparr>"
    by (rule set_destination_success(2)[OF assms(1) ok])
  assume "field_widths K tcp"
  then have "field_widths K (tcp\<lparr>destination := destination (snd (netstack_tcp_set_destination K tcp s))\<rparr>)"
    using le by (rule field_widths_destination)
  then show "field_widths K (snd (netstack_tcp_set_destination K tcp s))"
    using eq by simp
qed

theorem field_widths_maintained_witness:
  "field_widths demo_consts (netstack_tcp_init demo_tcp)
   \<and> field_widths demo_consts (snd (netstack_tcp_unpack demo_consts demo_tcp \<lparr>data = replicate 20 0xFF\<rparr>))
   \<and> field_widths demo_consts (snd (netstack_tcp_set_source demo_consts demo_tcp ''8080''))
   \<and> field_widths demo_consts (snd (netstack_tcp_set_destination demo_consts demo_tcp ''8080''))"
proof -
  have c: "NETSTACK_ERROR_NONE demo_consts \<noteq> NETSTACK_ERROR_BAD_FIELD demo_consts"
    "NETSTACK_ERROR_NONE demo_consts \<noteq> NETSTACK_ERROR_MISSING_DATA demo_consts"
    by (simp_all add: demo_consts_def)
  have u: "fst (netstack_tcp_unpack demo_consts demo_tcp \<lparr>data = replicate 20 0xFF\<rparr>)
             = NETSTACK_ERROR_NONE demo_consts"
    by (simp add: unpack_eq buffer_size_def)
  have s: "fst (netstack_tcp_set_source demo_consts demo_tcp ''8080'') = NETSTACK_ERROR_NONE demo_consts"
    "fst (netstack_tcp_set_destination demo_consts demo_tcp ''8080'') = NETSTACK_ERROR_NONE demo_consts"
    by (simp_all add: set_source_eq set_destination_eq digit_def dec_value_def)
  have w: "field_widths demo_consts demo_tcp"
    by (simp add: field_widths_def demo_tcp_def flags_mask_def demo_consts_def)
  show ?thesis
    using field_widths_maintained[OF c, of demo_tcp "\<lparr>data = replicate 20 0xFF\<rparr>" "''8080''"] u s w
    by simp
qed

text \<open>
  A setter does not touch the other fields: a header whose window size is 70000 keeps it
  through a successful \<open>netstack_tcp_set_source\<close>.
\<close>

theorem setter_keeps_wide_window:
  "fst (netstack_tcp_set_source demo_consts (demo_tcp\<lparr>window_size := 70000\<rparr>) ''80'')
     = NETSTACK_ERROR_NONE demo_consts
   \<and> \<not> field_widths demo_consts
         (snd (netstack_tcp_set_source demo_consts (demo_tcp\<lparr>window_size := 70000\<rparr>) ''80''))"
  by (simp add: set_source_eq digit_def dec_value_def field_widths_def)

end
